theory Spec2Isabelle
  imports Complex_Main "HOL-Library.Char_ord" "HOL-Library.List_Lexorder"
begin

section \<open>Supply chain data integration: inventory simulator and metrics\<close>

text \<open>
  The development embeds three modules of the repository:
  \<^item> \<^verbatim>\<open>data_extraction/api_connector.py\<close>: \<^verbatim>\<open>ExternalAPIHandler.simulate_inventory_activity\<close>
    and \<^verbatim>\<open>_append_inventory_metrics\<close>;
  \<^item> \<^verbatim>\<open>ingestion/api_ingestor.py\<close>: the second \<^verbatim>\<open>simulate_inventory_activity\<close> of the
    repository, a class of the same name with another simulation loop;
  \<^item> \<^verbatim>\<open>data_processing/supply_chain_metrics.py\<close>: the \<^verbatim>\<open>LogisticsAnalytics\<close> computations.

  Python integers are \<open>int\<close>. Python and numpy floats are idealised as \<open>real\<close>; the
  two float values that are not numbers are written out where the code can produce them
  (\<open>np.inf\<close> and \<open>NaN\<close>). An exception is a value of \<open>py_error\<close>; a method whose body is
  wrapped in \<^verbatim>\<open>try: ... except Exception: return None\<close> returns an \<open>option\<close>.
\<close>

subsection \<open>Exceptions and the random source\<close>

datatype py_error = KeyError | ZeroDivisionError | ValueError

text \<open>
  The module-level generator of \<^verbatim>\<open>random\<close> is an input of the simulation: a sequence of
  raw draws, consumed one per call. A sequence that runs out keeps giving \<open>0\<close>, so every
  finite run of the program is the run on some list. \<^verbatim>\<open>randint(a, b)\<close> is
  \<open>a + randbelow(b - a + 1)\<close> and \<^verbatim>\<open>uniform(a, b)\<close> is \<open>a + (b - a) * random()\<close>, where
  \<^verbatim>\<open>random()\<close> is a 53-bit integer divided by \<open>2 ^ 53\<close>.
\<close>

type_synonym rng = "nat list"

definition next_raw :: "rng \<Rightarrow> nat \<times> rng" where
  "next_raw g = (case g of [] \<Rightarrow> (0, []) | n # g' \<Rightarrow> (n, g'))"

definition randint :: "int \<Rightarrow> int \<Rightarrow> rng \<Rightarrow> int \<times> rng" where
  "randint a b g = (case next_raw g of (n, g') \<Rightarrow> (a + int (n mod nat (b - a + 1)), g'))"

definition uniform :: "real \<Rightarrow> real \<Rightarrow> rng \<Rightarrow> real \<times> rng" where
  "uniform a b g =
     (case next_raw g of (n, g') \<Rightarrow> (a + (b - a) * (real (n mod 2 ^ 53) / 2 ^ 53), g'))"

text \<open>\<^verbatim>\<open>int(x)\<close> on a float truncates towards zero.\<close>

definition py_int :: "real \<Rightarrow> int" where
  "py_int x = (if 0 \<le> x then \<lfloor>x\<rfloor> else \<lceil>x\<rceil>)"

subsection \<open>Data model\<close>

text \<open>A row of the product catalog, as \<^verbatim>\<open>product_df.iterrows()\<close> yields it.\<close>

record product =
  p_id :: int
  p_title :: string
  p_category :: string
  p_price :: real

text \<open>
  The dictionary built at lines 82-94 of \<^verbatim>\<open>api_connector.py\<close>. A date is a day number;
  \<^verbatim>\<open>simulation_start + timedelta(days=day)\<close> is \<open>simulation_start + day\<close>.
\<close>

record inventory_record =
  date :: int
  product_id :: int
  product_name :: string
  category :: string
  daily_demand :: int
  stock_level :: int
  restock_amount :: int
  restocked :: bool
  price :: real
  original_price :: real
  price_change_pct :: real

text \<open>
  A float that may be \<open>np.inf\<close> or \<open>NaN\<close>, with the comparisons of IEEE 754: a comparison
  with \<open>NaN\<close> is false.
\<close>

datatype npfloat = Fin real | PInf | NaN

fun np_less :: "npfloat \<Rightarrow> npfloat \<Rightarrow> bool" where
  "np_less (Fin x) (Fin y) = (x < y)"
| "np_less (Fin x) PInf = True"
| "np_less _ _ = False"

fun np_le :: "npfloat \<Rightarrow> npfloat \<Rightarrow> bool" where
  "np_le (Fin x) (Fin y) = (x \<le> y)"
| "np_le (Fin x) PInf = True"
| "np_le PInf PInf = True"
| "np_le _ _ = False"

record enriched_record = inventory_record +
  days_of_inventory :: npfloat
  stockout_risk :: bool
  annualized_turnover :: real
  fill_rate :: real

text \<open>The constants the module imports from \<^verbatim>\<open>config\<close>, which is not part of the sources.\<close>

record config =
  RESTOCKING_FREQUENCY :: int
  DEMAND_VARIABILITY :: real

subsection \<open>The simulator of \<^verbatim>\<open>api_connector.py\<close>\<close>

type_synonym sim_state = "inventory_record list \<times> rng"

text \<open>
  The body of the inner loop (lines 62-96), for one \<open>day\<close> and one catalog row \<open>item\<close>.
  \<open>day % RESTOCKING_FREQUENCY\<close> raises when the frequency is \<open>0\<close>; the values of a catalog
  row are Python numbers, so the division by \<open>item['price']\<close> raises when the price is \<open>0\<close>.
  Python's \<open>%\<close> on integers takes the sign of the divisor, as \<open>mod\<close> on \<open>int\<close> does.
\<close>

definition simulate_item ::
  "config \<Rightarrow> int \<Rightarrow> nat \<Rightarrow> product \<Rightarrow> sim_state \<Rightarrow> py_error + sim_state" where
  "simulate_item cfg simulation_start day item st =
     (case st of (inventory_records, g0) \<Rightarrow>
      let simulation_date = simulation_start + int day;
          (base_demand, g1) = randint 1 10 g0;
          (noise, g2) = uniform (1 - DEMAND_VARIABILITY cfg) (1 + DEMAND_VARIABILITY cfg) g1;
          adjusted_demand = max 0 (py_int (real_of_int base_demand * noise));
          (stock_today, g3) =
            (if day = 0 then randint 50 200 g2
             else (case find (\<lambda>r. product_id r = p_id item \<and> date r = simulation_date - 1)
                          inventory_records of
                     Some prev_entry \<Rightarrow> (stock_level prev_entry, g2)
                   | None \<Rightarrow> randint 50 200 g2));
          current_stock = stock_today - adjusted_demand
      in if RESTOCKING_FREQUENCY cfg = 0 then Inl ZeroDivisionError
         else
           let (restock_qty, was_restocked, current_stock', g4) =
                 (if int day mod RESTOCKING_FREQUENCY cfg = 0
                  then (case randint 50 100 g3 of
                          (q, g) \<Rightarrow> (q, True, current_stock + q, g))
                  else (0, False, current_stock, g3));
               (factor, g5) = uniform 0.95 1.05 g4;
               price_variation = p_price item * factor
           in if p_price item = 0 then Inl ZeroDivisionError
              else Inr (inventory_records @
                     [\<lparr>date = simulation_date,
                       product_id = p_id item,
                       product_name = p_title item,
                       category = p_category item,
                       daily_demand = adjusted_demand,
                       stock_level = max 0 current_stock',
                       restock_amount = restock_qty,
                       restocked = was_restocked,
                       price = price_variation,
                       original_price = p_price item,
                       price_change_pct =
                         ((price_variation - p_price item) / p_price item) * 100\<rparr>], g5))"

text \<open>\<^verbatim>\<open>for _, item in product_df.iterrows()\<close>: an exception leaves the loop.\<close>

fun simulate_products ::
  "config \<Rightarrow> int \<Rightarrow> nat \<Rightarrow> product list \<Rightarrow> sim_state \<Rightarrow> py_error + sim_state" where
  "simulate_products cfg simulation_start day [] st = Inr st"
| "simulate_products cfg simulation_start day (item # items) st =
     (case simulate_item cfg simulation_start day item st of
        Inl e \<Rightarrow> Inl e
      | Inr st' \<Rightarrow> simulate_products cfg simulation_start day items st')"

text \<open>\<^verbatim>\<open>for day in range(simulation_days)\<close>, over the list of the days.\<close>

fun simulate_days ::
  "config \<Rightarrow> int \<Rightarrow> product list \<Rightarrow> nat list \<Rightarrow> sim_state \<Rightarrow> py_error + sim_state" where
  "simulate_days cfg simulation_start product_df [] st = Inr st"
| "simulate_days cfg simulation_start product_df (day # days) st =
     (case simulate_products cfg simulation_start day product_df st of
        Inl e \<Rightarrow> Inl e
      | Inr st' \<Rightarrow> simulate_days cfg simulation_start product_df days st')"

subsection \<open>The frame of the records and its enrichment\<close>

text \<open>
  \<^verbatim>\<open>pd.DataFrame(inventory_records)\<close> takes its columns from the keys of the dictionaries:
  the frame of an empty list has no column at all.
\<close>

record inventory_frame =
  columns :: "string list"
  rows :: "inventory_record list"

definition record_keys :: "string list" where
  "record_keys = [''date'', ''product_id'', ''product_name'', ''category'', ''daily_demand'',
     ''stock_level'', ''restock_amount'', ''restocked'', ''price'', ''original_price'',
     ''price_change_pct'']"

definition DataFrame :: "inventory_record list \<Rightarrow> inventory_frame" where
  "DataFrame inventory_records =
     \<lparr>columns = (if inventory_records = [] then [] else record_keys),
      rows = inventory_records\<rparr>"

text \<open>
  The four \<^verbatim>\<open>np.where\<close> formulas of \<^verbatim>\<open>_append_inventory_metrics\<close> on one row. The
  division of two integer columns is the true division; the branch that \<^verbatim>\<open>np.where\<close>
  does not select is computed by numpy without raising and dropped.
\<close>

definition enrich :: "inventory_record \<Rightarrow> enriched_record" where
  "enrich r =
     (let doi = (if daily_demand r > 0
                 then Fin (real_of_int (stock_level r) / real_of_int (daily_demand r))
                 else PInf)
      in inventory_record.extend r
           (enriched_record.fields
              doi
              (np_less doi (Fin 3))
              (if stock_level r > 0
               then real_of_int (daily_demand r * 365) / real_of_int (stock_level r) else 0)
              (if daily_demand r > 0
               then min 1 (real_of_int (stock_level r) / real_of_int (daily_demand r))
               else 1)))"

text \<open>\<^verbatim>\<open>df['daily_demand']\<close> on a frame without that column raises \<^verbatim>\<open>KeyError\<close>.\<close>

definition append_inventory_metrics :: "inventory_frame \<Rightarrow> py_error + enriched_record list" where
  "append_inventory_metrics df =
     (if ''daily_demand'' \<in> set (columns df)
      then if ''stock_level'' \<in> set (columns df)
           then Inr (map enrich (rows df))
           else Inl KeyError
      else Inl KeyError)"

text \<open>
  The body of \<^verbatim>\<open>simulate_inventory_activity\<close> inside \<^verbatim>\<open>try\<close>, and the method itself, where
  \<^verbatim>\<open>except Exception\<close> logs the error and returns \<^verbatim>\<open>None\<close>. \<open>simulation_start\<close> stands for
  \<^verbatim>\<open>datetime.now() - timedelta(days=simulation_days)\<close>.
\<close>

definition simulate_inventory_body ::
  "config \<Rightarrow> rng \<Rightarrow> int \<Rightarrow> product list \<Rightarrow> int \<Rightarrow> py_error + enriched_record list" where
  "simulate_inventory_body cfg g simulation_start product_df simulation_days =
     (case simulate_days cfg simulation_start product_df [0..<nat simulation_days] ([], g) of
        Inl e \<Rightarrow> Inl e
      | Inr (inventory_records, g') \<Rightarrow> append_inventory_metrics (DataFrame inventory_records))"

definition simulate_inventory_activity ::
  "config \<Rightarrow> rng \<Rightarrow> int \<Rightarrow> product list \<Rightarrow> int \<Rightarrow> enriched_record list option" where
  "simulate_inventory_activity cfg g simulation_start product_df simulation_days =
     (case simulate_inventory_body cfg g simulation_start product_df simulation_days of
        Inl e \<Rightarrow> None
      | Inr inventory_df \<Rightarrow> Some inventory_df)"

subsection \<open>The simulator of \<^verbatim>\<open>api_ingestor.py\<close>\<close>

text \<open>
  \<^verbatim>\<open>ingestion/api_ingestor.py\<close> has the loops the other way round: for every product a base
  demand is drawn once, and the days follow. \<^verbatim>\<open>simulation_date.weekday()\<close> is \<open>0\<close> on a
  Monday; the day numbers count from a Monday. The previous entry is the last record of
  the product. \<^verbatim>\<open>day > 0 and day % RESTOCKING_FREQUENCY == 0\<close> evaluates the remainder
  only when \<open>day > 0\<close>.
\<close>

definition weekday :: "int \<Rightarrow> int" where
  "weekday d = d mod 7"

definition trend_factor :: real where
  "trend_factor = 1.05"

type_synonym ingest_state = "inventory_record list \<times> rng \<times> real"

definition ingestor_day ::
  "config \<Rightarrow> int \<Rightarrow> int \<Rightarrow> product \<Rightarrow> nat \<Rightarrow> ingest_state \<Rightarrow> py_error + ingest_state" where
  "ingestor_day cfg simulation_start simulation_days item day st =
     (case st of (inventory_records, g0, base_demand) \<Rightarrow>
      let simulation_date = simulation_start + int day;
          seasonal_factor = (if weekday simulation_date \<ge> 5 then 1.2 else 0.9 :: real);
          (random_factor, g1) =
            uniform (1 - DEMAND_VARIABILITY cfg) (1 + DEMAND_VARIABILITY cfg) g0;
          demand = py_int (base_demand * seasonal_factor * random_factor);
          base_demand' = base_demand * (trend_factor powr (1 / real_of_int simulation_days));
          (stock_before, g2) =
            (if day = 0 then randint 100 300 g1
             else (case find (\<lambda>r. product_id r = p_id item) (rev inventory_records) of
                     Some prev_entry \<Rightarrow> (stock_level prev_entry, g1)
                   | None \<Rightarrow> randint 100 300 g1));
          stock_after_demand = stock_before - demand
      in if day > 0 \<and> RESTOCKING_FREQUENCY cfg = 0 then Inl ZeroDivisionError
         else
           let (restock_qty, was_restocked, stock_after_restock, g3) =
                 (if day > 0 \<and> int day mod RESTOCKING_FREQUENCY cfg = 0
                  then (case randint 75 150 g2 of
                          (q, g) \<Rightarrow> (q, True, stock_after_demand + q, g))
                  else (0, False, stock_after_demand, g2));
               (factor, g4) = uniform 0.95 1.05 g3;
               price_variation = p_price item * factor
           in if p_price item = 0 then Inl ZeroDivisionError
              else Inr (inventory_records @
                     [\<lparr>date = simulation_date,
                       product_id = p_id item,
                       product_name = p_title item,
                       category = p_category item,
                       daily_demand = demand,
                       stock_level = max 0 stock_after_restock,
                       restock_amount = restock_qty,
                       restocked = was_restocked,
                       price = price_variation,
                       original_price = p_price item,
                       price_change_pct =
                         ((price_variation - p_price item) / p_price item) * 100\<rparr>],
                     g4, base_demand'))"

text \<open>\<^verbatim>\<open>for day in range(simulation_days)\<close>, with the base demand of the product.\<close>

fun ingestor_days ::
  "config \<Rightarrow> int \<Rightarrow> int \<Rightarrow> product \<Rightarrow> nat list \<Rightarrow> ingest_state \<Rightarrow> py_error + ingest_state" where
  "ingestor_days cfg simulation_start simulation_days item [] st = Inr st"
| "ingestor_days cfg simulation_start simulation_days item (day # days) st =
     (case ingestor_day cfg simulation_start simulation_days item day st of
        Inl e \<Rightarrow> Inl e
      | Inr st' \<Rightarrow> ingestor_days cfg simulation_start simulation_days item days st')"

text \<open>
  \<^verbatim>\<open>for _, item in product_df.iterrows()\<close>, with \<^verbatim>\<open>base_demand = random.uniform(5, 20)\<close>
  at the start of every product.
\<close>

fun ingestor_products ::
  "config \<Rightarrow> int \<Rightarrow> int \<Rightarrow> product list \<Rightarrow> sim_state \<Rightarrow> py_error + sim_state" where
  "ingestor_products cfg simulation_start simulation_days [] st = Inr st"
| "ingestor_products cfg simulation_start simulation_days (item # items) st =
     (case st of (inventory_records, g) \<Rightarrow>
      (case uniform 5 20 g of (base_demand, g1) \<Rightarrow>
       (case ingestor_days cfg simulation_start simulation_days item
               [0..<nat simulation_days] (inventory_records, g1, base_demand) of
          Inl e \<Rightarrow> Inl e
        | Inr (inventory_records', g', b) \<Rightarrow>
            ingestor_products cfg simulation_start simulation_days items
              (inventory_records', g'))))"

text \<open>
  The method of \<^verbatim>\<open>api_ingestor.py\<close>; its \<^verbatim>\<open>_append_inventory_metrics\<close> is the same as in
  \<^verbatim>\<open>api_connector.py\<close>.
\<close>

definition ingestor_simulate_inventory_activity ::
  "config \<Rightarrow> rng \<Rightarrow> int \<Rightarrow> product list \<Rightarrow> int \<Rightarrow> enriched_record list option" where
  "ingestor_simulate_inventory_activity cfg g simulation_start product_df simulation_days =
     (case ingestor_products cfg simulation_start simulation_days product_df ([], g) of
        Inl e \<Rightarrow> None
      | Inr (inventory_records, g') \<Rightarrow>
          (case append_inventory_metrics (DataFrame inventory_records) of
             Inl e \<Rightarrow> None
           | Inr inventory_df \<Rightarrow> Some inventory_df))"

subsection \<open>Series statistics of pandas\<close>

text \<open>
  The reductions \<^verbatim>\<open>mean\<close>, \<^verbatim>\<open>median\<close>, \<^verbatim>\<open>std\<close>, \<^verbatim>\<open>min\<close> and \<^verbatim>\<open>max\<close> of a numeric
  column skip the null entries and give \<open>NaN\<close> when nothing is left (\<^verbatim>\<open>std\<close> is the sample
  deviation and needs two values). They take the list of the non-null values.
\<close>

definition series_mean :: "real list \<Rightarrow> npfloat" where
  "series_mean xs = (if xs = [] then NaN else Fin (sum_list xs / real (length xs)))"

definition series_median :: "real list \<Rightarrow> npfloat" where
  "series_median xs =
     (if xs = [] then NaN
      else let ys = sort xs; n = length ys
           in if odd n then Fin (ys ! (n div 2))
              else Fin ((ys ! (n div 2 - 1) + ys ! (n div 2)) / 2))"

definition series_std :: "real list \<Rightarrow> npfloat" where
  "series_std xs =
     (if length xs < 2 then NaN
      else let m = sum_list xs / real (length xs)
           in Fin (sqrt (sum_list (map (\<lambda>x. (x - m)\<^sup>2) xs) / real (length xs - 1))))"

definition series_min :: "real list \<Rightarrow> npfloat" where
  "series_min xs = (case xs of [] \<Rightarrow> NaN | x # ys \<Rightarrow> Fin (fold min ys x))"

definition series_max :: "real list \<Rightarrow> npfloat" where
  "series_max xs = (case xs of [] \<Rightarrow> NaN | x # ys \<Rightarrow> Fin (fold max ys x))"

text \<open>
  The same reductions on a column that may hold \<open>np.inf\<close>: a sum with \<open>+inf\<close> is \<open>+inf\<close>,
  and \<open>+inf\<close> sorts after every number.
\<close>

definition finite_values :: "npfloat list \<Rightarrow> real list" where
  "finite_values xs = List.map_filter (\<lambda>x. case x of Fin v \<Rightarrow> Some v | _ \<Rightarrow> None) xs"

definition npfloat_mean :: "npfloat list \<Rightarrow> npfloat" where
  "npfloat_mean xs =
     (let ys = filter (\<lambda>x. x \<noteq> NaN) xs
      in if ys = [] then NaN
         else if PInf \<in> set ys then PInf
         else Fin (sum_list (finite_values ys) / real (length ys)))"

fun np_avg2 :: "npfloat \<Rightarrow> npfloat \<Rightarrow> npfloat" where
  "np_avg2 (Fin a) (Fin b) = Fin ((a + b) / 2)"
| "np_avg2 _ _ = PInf"

definition npfloat_median :: "npfloat list \<Rightarrow> npfloat" where
  "npfloat_median xs =
     (let ys = filter (\<lambda>x. x \<noteq> NaN) xs;
          zs = map Fin (sort (finite_values ys)) @ filter (\<lambda>x. x = PInf) ys;
          n = length zs
      in if n = 0 then NaN
         else if odd n then zs ! (n div 2)
         else np_avg2 (zs ! (n div 2 - 1)) (zs ! (n div 2)))"

text \<open>The non-null values of a column of integers.\<close>

definition non_null :: "int option list \<Rightarrow> real list" where
  "non_null col = map real_of_int (List.map_filter id col)"

subsection \<open>Order and return collections\<close>

datatype grade = Excellent | Good | Poor

text \<open>
  A row of the order frame. A cell is \<open>None\<close> when it is null (\<open>NaN\<close>, \<open>NaT\<close>). The first six
  fields are the columns that the ingestion supplies, the last three the columns that the
  analytics write. Dates are day numbers.
\<close>

record order_row =
  order_id :: string
  order_date :: "int option"
  ship_date :: "int option"
  order_category :: "string option"
  sales :: real
  lead_time_days :: "int option"
  lead_time_grade :: "grade option"
  delivery_date :: "int option"
  cycle_time_days :: "int option"

text \<open>
  The frame: its column index and its rows. \<^verbatim>\<open>'x' in df.columns\<close> reads \<open>o_columns\<close>;
  the cells of a column that is not in the index are not part of the frame.
\<close>

record orders_frame =
  o_columns :: "string list"
  o_rows :: "order_row list"

text \<open>\<^verbatim>\<open>df[name] = values\<close> keeps the place of an existing column and appends a new one.\<close>

definition set_column :: "string \<Rightarrow> string list \<Rightarrow> string list" where
  "set_column name cols = (if name \<in> set cols then cols else cols @ [name])"

record return_row =
  return_id :: string
  return_order_id :: string
  return_date :: "int option"
  return_category :: "string option"

record returns_frame =
  r_columns :: "string list"
  r_rows :: "return_row list"

text \<open>\<^verbatim>\<open>df.empty\<close>: one of the two axes has length \<open>0\<close>.\<close>

definition frame_empty :: "returns_frame \<Rightarrow> bool" where
  "frame_empty df = (r_rows df = [] \<or> r_columns df = [])"

text \<open>The dictionaries \<^verbatim>\<open>LEAD_TIME_THRESHOLDS\<close> and \<^verbatim>\<open>FILL_RATE_THRESHOLDS\<close> of \<^verbatim>\<open>config\<close>.\<close>

record lead_time_thresholds =
  lt_excellent :: real
  lt_good :: real

record fill_rate_thresholds =
  fr_excellent :: real
  fr_good :: real
  fr_poor :: real

subsection \<open>Lead time statistics\<close>

text \<open>
  \<^verbatim>\<open>pd.cut(x, bins=[0, excellent, good, inf], labels=[...])\<close> with the defaults
  \<^verbatim>\<open>right=True\<close> and \<^verbatim>\<open>include_lowest=False\<close>: the intervals are \<open>(0, excellent]\<close>,
  \<open>(excellent, good]\<close> and \<open>(good, inf]\<close>; a value in none of them, or a null one, gets no
  label. \<^verbatim>\<open>pd.cut\<close> raises \<^verbatim>\<open>ValueError\<close> unless the bin edges increase strictly.
\<close>

definition bins_increase :: "lead_time_thresholds \<Rightarrow> bool" where
  "bins_increase thr = (0 < lt_excellent thr \<and> lt_excellent thr < lt_good thr)"

definition cut :: "lead_time_thresholds \<Rightarrow> int option \<Rightarrow> grade option" where
  "cut thr v =
     (case v of
        None \<Rightarrow> None
      | Some x \<Rightarrow>
          if 0 < real_of_int x \<and> real_of_int x \<le> lt_excellent thr then Some Excellent
          else if lt_excellent thr < real_of_int x \<and> real_of_int x \<le> lt_good thr then Some Good
          else if lt_good thr < real_of_int x then Some Poor
          else None)"

text \<open>
  \<^verbatim>\<open>value_counts(normalize=True)\<close> of the grade column drops the null grades and divides
  the count of every label by the number of graded rows; with no graded row that is
  \<open>0 / 0\<close>. \<^verbatim>\<open>performance.get(label, 0)\<close> reads the entry of the label.
\<close>

definition value_counts_normalize :: "grade option list \<Rightarrow> grade \<Rightarrow> npfloat" where
  "value_counts_normalize grades label =
     (let graded = List.map_filter id grades
      in if graded = [] then NaN
         else Fin (real (count_list graded label) / real (length graded)))"

record lead_time_stats =
  avg_lead_time :: npfloat
  med_lead_time :: npfloat
  std_lead_time :: npfloat
  min_lead_time :: npfloat
  max_lead_time :: npfloat
  order_count :: nat
  excellent_ratio :: npfloat
  good_ratio :: npfloat
  poor_ratio :: npfloat

text \<open>
  \<^verbatim>\<open>compute_lead_time_stats\<close> returns its statistics, or \<^verbatim>\<open>None\<close>, and assigns the column
  \<^verbatim>\<open>lead_time_grade\<close> of the frame it was given: the frame after the call is the second
  component.
\<close>

definition compute_lead_time_stats ::
  "lead_time_thresholds \<Rightarrow> orders_frame \<Rightarrow> lead_time_stats option \<times> orders_frame" where
  "compute_lead_time_stats thr df_orders =
     (if ''Lead Time (Days)'' \<notin> set (o_columns df_orders) then (None, df_orders)
      else
        let xs = non_null (map lead_time_days (o_rows df_orders))
        in if \<not> bins_increase thr then (None, df_orders)
           else
             let df' = df_orders
                   \<lparr>o_columns := set_column ''lead_time_grade'' (o_columns df_orders),
                    o_rows := map (\<lambda>r. r\<lparr>lead_time_grade := cut thr (lead_time_days r)\<rparr>)
                                (o_rows df_orders)\<rparr>;
                 performance = value_counts_normalize (map lead_time_grade (o_rows df'))
             in (Some \<lparr>avg_lead_time = series_mean xs,
                       med_lead_time = series_median xs,
                       std_lead_time = series_std xs,
                       min_lead_time = series_min xs,
                       max_lead_time = series_max xs,
                       order_count = length (o_rows df_orders),
                       excellent_ratio = performance Excellent,
                       good_ratio = performance Good,
                       poor_ratio = performance Poor\<rparr>, df'))"

subsection \<open>Cycle time statistics\<close>

record cycle_time_stats =
  avg_cycle_time :: npfloat
  med_cycle_time :: npfloat
  std_cycle_time :: npfloat
  min_cycle_time :: npfloat
  max_cycle_time :: npfloat

datatype cycle_result = CycleTime cycle_time_stats | LeadTime lead_time_stats

text \<open>\<^verbatim>\<open>np.random.randint(2, 6, size=n)\<close>: \<open>n\<close> draws from \<open>2, ..., 5\<close>.\<close>

fun np_randint :: "int \<Rightarrow> int \<Rightarrow> nat \<Rightarrow> rng \<Rightarrow> int list \<times> rng" where
  "np_randint low high 0 g = ([], g)"
| "np_randint low high (Suc n) g =
     (case next_raw g of (k, g') \<Rightarrow>
        (case np_randint low high n g' of (ds, g'') \<Rightarrow>
           ((low + int (k mod nat (high - low))) # ds, g'')))"

text \<open>Arithmetic on date cells: an operation with \<open>NaT\<close> gives a null cell.\<close>

definition add_days :: "int option \<Rightarrow> int \<Rightarrow> int option" where
  "add_days d k = map_option (\<lambda>x. x + k) d"

definition days_between :: "int option \<Rightarrow> int option \<Rightarrow> int option" where
  "days_between later earlier =
     (case (later, earlier) of (Some a, Some b) \<Rightarrow> Some (a - b) | _ \<Rightarrow> None)"

text \<open>
  \<^verbatim>\<open>compute_cycle_time\<close>: with a ship date it assigns \<^verbatim>\<open>Delivery Date\<close>, then reads
  \<^verbatim>\<open>Order Date\<close> (a \<^verbatim>\<open>KeyError\<close> at that point leaves the first assignment in place) and
  assigns \<^verbatim>\<open>Cycle Time (Days)\<close>; without one it calls \<^verbatim>\<open>compute_lead_time_stats\<close>.
\<close>

definition compute_cycle_time ::
  "lead_time_thresholds \<Rightarrow> rng \<Rightarrow> orders_frame \<Rightarrow> cycle_result option \<times> orders_frame" where
  "compute_cycle_time thr g df_orders =
     (if ''Ship Date'' \<in> set (o_columns df_orders) then
        let days_delta = fst (np_randint 2 6 (length (o_rows df_orders)) g);
            df1 = df_orders
              \<lparr>o_columns := set_column ''Delivery Date'' (o_columns df_orders),
               o_rows := map (\<lambda>(r, k). r\<lparr>delivery_date := add_days (ship_date r) k\<rparr>)
                           (zip (o_rows df_orders) days_delta)\<rparr>
        in if ''Order Date'' \<notin> set (o_columns df1) then (None, df1)
           else
             let df2 = df1
                   \<lparr>o_columns := set_column ''Cycle Time (Days)'' (o_columns df1),
                    o_rows := map (\<lambda>r. r\<lparr>cycle_time_days :=
                                      days_between (delivery_date r) (order_date r)\<rparr>)
                                (o_rows df1)\<rparr>;
                 xs = non_null (map cycle_time_days (o_rows df2))
             in (Some (CycleTime
                   \<lparr>avg_cycle_time = series_mean xs,
                    med_cycle_time = series_median xs,
                    std_cycle_time = series_std xs,
                    min_cycle_time = series_min xs,
                    max_cycle_time = series_max xs\<rparr>), df2)
      else
        (case compute_lead_time_stats thr df_orders of
           (res, df') \<Rightarrow> (map_option LeadTime res, df')))"

subsection \<open>Fill rate statistics\<close>

text \<open>
  \<^verbatim>\<open>df_inventory.groupby('product_id').agg({'fill_rate': 'mean', 'stockout_risk': 'sum'})\<close>:
  one row per product id, in the order of the ids, with the mean fill rate of the product's
  records and the number of its records at risk.
\<close>

definition groupby_product :: "enriched_record list \<Rightarrow> (int \<times> real \<times> nat) list" where
  "groupby_product df_inventory =
     map (\<lambda>k. let grp = filter (\<lambda>r. product_id r = k) df_inventory
              in (k, sum_list (map fill_rate grp) / real (length grp),
                  length (filter stockout_risk grp)))
         (sort (remdups (map product_id df_inventory)))"

text \<open>The mean of a column of booleans: the share of \<^verbatim>\<open>True\<close>, \<open>NaN\<close> for an empty column.\<close>

definition bool_mean :: "bool list \<Rightarrow> npfloat" where
  "bool_mean bs = series_mean (map (\<lambda>b. if b then 1 else 0) bs)"

record fill_rate_stats =
  avg_fill_rate :: npfloat
  med_fill_rate :: npfloat
  excellent_rate_ratio :: npfloat
  good_rate_ratio :: npfloat
  poor_rate_ratio :: npfloat
  product_total :: nat
  at_risk_count :: nat

definition compute_fill_rate_stats ::
  "fill_rate_thresholds \<Rightarrow> enriched_record list \<Rightarrow> fill_rate_stats option" where
  "compute_fill_rate_stats thr df_inventory =
     (let grouped = groupby_product df_inventory;
          rates = map (\<lambda>(k, f, n). f) grouped
      in Some \<lparr>avg_fill_rate = series_mean rates,
               med_fill_rate = series_median rates,
               excellent_rate_ratio = bool_mean (map (\<lambda>f. f \<ge> fr_excellent thr) rates),
               good_rate_ratio = bool_mean (map (\<lambda>f. f \<ge> fr_good thr) rates),
               poor_rate_ratio = bool_mean (map (\<lambda>f. f < fr_poor thr) rates),
               product_total = length grouped,
               at_risk_count = sum_list (map (\<lambda>(k, f, n). n) grouped)\<rparr>)"

subsection \<open>Return statistics\<close>

text \<open>
  \<^verbatim>\<open>df_returns['category'].value_counts(normalize=True)\<close>: the share of every category
  among the non-null cells, as a mapping from the categories that occur.
\<close>

definition category_shares :: "string option list \<Rightarrow> (string \<rightharpoonup> real)" where
  "category_shares col =
     (let cats = List.map_filter id col
      in (\<lambda>c. if c \<in> set cats then Some (real (count_list cats c) / real (length cats))
               else None))"

text \<open>
  The result dictionary. The branch without return data builds it without the key
  \<^verbatim>\<open>category_breakdown\<close>; that and the value \<^verbatim>\<open>None\<close> of the other branch are both \<open>None\<close>.
\<close>

record return_stats =
  order_total :: nat
  return_total :: nat
  return_ratio :: real
  return_percent :: real
  category_breakdown :: "(string \<rightharpoonup> real) option"

definition no_return_data :: "orders_frame \<Rightarrow> return_stats" where
  "no_return_data df_orders =
     \<lparr>order_total = length (o_rows df_orders), return_total = 0, return_ratio = 0,
      return_percent = 0, category_breakdown = None\<rparr>"

definition compute_return_metrics ::
  "orders_frame \<Rightarrow> returns_frame option \<Rightarrow> return_stats option" where
  "compute_return_metrics df_orders df_returns =
     (case df_returns of
        None \<Rightarrow> Some (no_return_data df_orders)
      | Some rets \<Rightarrow>
          if \<not> frame_empty rets then
            let n_orders = length (o_rows df_orders);
                n_returns = length (r_rows rets);
                rate = (if n_orders > 0 then real n_returns / real n_orders else 0)
            in Some \<lparr>order_total = n_orders,
                     return_total = n_returns,
                     return_ratio = rate,
                     return_percent = rate * 100,
                     category_breakdown =
                       (if ''category'' \<in> set (r_columns rets)
                        then Some (category_shares (map return_category (r_rows rets)))
                        else None)\<rparr>
          else Some (no_return_data df_orders))"

subsection \<open>Inventory turnover\<close>

text \<open>
  \<^verbatim>\<open>compute_inventory_turnover\<close>: the means of demand, stock and turnover per product,
  \<^verbatim>\<open>days_on_hand\<close> by \<^verbatim>\<open>np.where\<close>, and the statistics across the products.
\<close>

record product_group =
  grp_daily_demand :: real
  grp_stock_level :: real
  grp_turnover :: real
  days_on_hand :: npfloat

definition turnover_by_product :: "enriched_record list \<Rightarrow> (int \<times> product_group) list" where
  "turnover_by_product df_inventory =
     map (\<lambda>k. let grp = filter (\<lambda>r. product_id r = k) df_inventory;
                  n = real (length grp);
                  demand = sum_list (map (\<lambda>r. real_of_int (daily_demand r)) grp) / n;
                  stock = sum_list (map (\<lambda>r. real_of_int (stock_level r)) grp) / n
              in (k, \<lparr>grp_daily_demand = demand,
                      grp_stock_level = stock,
                      grp_turnover = sum_list (map annualized_turnover grp) / n,
                      days_on_hand = (if demand > 0 then Fin (stock / demand) else PInf)\<rparr>))
         (sort (remdups (map product_id df_inventory)))"

record turnover_stats =
  avg_turnover :: npfloat
  med_turnover :: npfloat
  avg_days_on_hand :: npfloat
  med_days_on_hand :: npfloat
  product_count :: nat

definition compute_inventory_turnover :: "enriched_record list \<Rightarrow> turnover_stats option" where
  "compute_inventory_turnover df_inventory =
     (let grouped = map snd (turnover_by_product df_inventory)
      in Some \<lparr>avg_turnover = series_mean (map grp_turnover grouped),
               med_turnover = series_median (map grp_turnover grouped),
               avg_days_on_hand = npfloat_mean (map days_on_hand grouped),
               med_days_on_hand = npfloat_median (map days_on_hand grouped),
               product_count = length grouped\<rparr>)"

subsection \<open>Category metrics\<close>

text \<open>
  \<^verbatim>\<open>compute_category_metrics\<close>: the lead time statistics of the orders per category, the
  inventory statistics per category, and their outer merge on the category, in the order
  of the categories. A side that has no row for a category is \<open>None\<close>. The grouping of
  the orders drops the rows without a category; \<^verbatim>\<open>['Lead Time (Days)']\<close> raises
  \<^verbatim>\<open>KeyError\<close> on orders without that column. The inventory frame of the model carries
  all its columns.
\<close>

record lead_time_group =
  lt_mean :: npfloat
  lt_median :: npfloat
  lt_std :: npfloat
  lt_count :: nat

record inventory_group =
  grp_fill_rate :: real
  grp_annualized_turnover :: real
  grp_days_of_inventory :: npfloat
  grp_stockout_risk :: nat

definition orders_by_category :: "orders_frame \<Rightarrow> (string \<times> lead_time_group) list" where
  "orders_by_category df_orders =
     map (\<lambda>k. let xs = non_null (map lead_time_days
                         (filter (\<lambda>r. order_category r = Some k) (o_rows df_orders)))
              in (k, \<lparr>lt_mean = series_mean xs, lt_median = series_median xs,
                      lt_std = series_std xs, lt_count = length xs\<rparr>))
         (sort (remdups (List.map_filter order_category (o_rows df_orders))))"

definition inventory_by_category :: "enriched_record list \<Rightarrow> (string \<times> inventory_group) list" where
  "inventory_by_category df_inventory =
     map (\<lambda>k. let grp = filter (\<lambda>r. category r = k) df_inventory;
                  n = real (length grp)
              in (k, \<lparr>grp_fill_rate = sum_list (map fill_rate grp) / n,
                      grp_annualized_turnover = sum_list (map annualized_turnover grp) / n,
                      grp_days_of_inventory = npfloat_mean (map days_of_inventory grp),
                      grp_stockout_risk = length (filter stockout_risk grp)\<rparr>))
         (sort (remdups (map category df_inventory)))"

definition merge_outer ::
  "(string \<times> 'a) list \<Rightarrow> (string \<times> 'b) list \<Rightarrow> (string \<times> 'a option \<times> 'b option) list" where
  "merge_outer left right =
     map (\<lambda>k. (k, map_of left k, map_of right k))
         (sort (remdups (map fst left @ map fst right)))"

definition compute_category_metrics ::
  "orders_frame \<Rightarrow> enriched_record list \<Rightarrow>
     (string \<times> lead_time_group option \<times> inventory_group option) list option" where
  "compute_category_metrics df_orders df_inventory =
     (if ''category'' \<in> set (o_columns df_orders) then
        if ''Lead Time (Days)'' \<in> set (o_columns df_orders)
        then Some (merge_outer (orders_by_category df_orders)
                     (inventory_by_category df_inventory))
        else None
      else None)"

subsection \<open>A call on the collections of the caller\<close>

text \<open>
  The caller of the analytics holds three collections, and a method gets the frames that
  its parameters name: they are the caller's objects, and an assignment
  \<^verbatim>\<open>df_orders[...] = ...\<close> in the method changes the caller's frame. \<open>run_metric\<close> is one
  call of each of the six computations of \<^verbatim>\<open>LogisticsAnalytics\<close>, named as in the result
  of \<^verbatim>\<open>compute_all_metrics\<close>, with the collections after the call. Only
  \<^verbatim>\<open>compute_lead_time_stats\<close> and \<^verbatim>\<open>compute_cycle_time\<close> assign to a frame they were
  given; the other four build new frames (\<^verbatim>\<open>grouped\<close>, \<^verbatim>\<open>combined\<close>) and read their
  parameters only.
\<close>

record analytics_config =
  LEAD_TIME_THRESHOLDS :: lead_time_thresholds
  FILL_RATE_THRESHOLDS :: fill_rate_thresholds

record collections =
  orders_of :: orders_frame
  inventory_of :: "enriched_record list"
  returns_of :: "returns_frame option"

datatype metric = Lead_time | Cycle_time | Inventory_turnover | Fill_rate | Category | Returns

datatype metric_result =
    Lead_time_result "lead_time_stats option"
  | Cycle_time_result "cycle_result option"
  | Inventory_turnover_result "turnover_stats option"
  | Fill_rate_result "fill_rate_stats option"
  | Category_result "(string \<times> lead_time_group option \<times> inventory_group option) list option"
  | Returns_result "return_stats option"

fun run_metric ::
  "analytics_config \<Rightarrow> rng \<Rightarrow> metric \<Rightarrow> collections \<Rightarrow> metric_result \<times> collections" where
  "run_metric cfg g Lead_time c =
     (case compute_lead_time_stats (LEAD_TIME_THRESHOLDS cfg) (orders_of c) of
        (res, df') \<Rightarrow> (Lead_time_result res, c\<lparr>orders_of := df'\<rparr>))"
| "run_metric cfg g Cycle_time c =
     (case compute_cycle_time (LEAD_TIME_THRESHOLDS cfg) g (orders_of c) of
        (res, df') \<Rightarrow> (Cycle_time_result res, c\<lparr>orders_of := df'\<rparr>))"
| "run_metric cfg g Inventory_turnover c =
     (Inventory_turnover_result (compute_inventory_turnover (inventory_of c)), c)"
| "run_metric cfg g Fill_rate c =
     (Fill_rate_result (compute_fill_rate_stats (FILL_RATE_THRESHOLDS cfg) (inventory_of c)), c)"
| "run_metric cfg g Category c =
     (Category_result (compute_category_metrics (orders_of c) (inventory_of c)), c)"
| "run_metric cfg g Returns c =
     (Returns_result (compute_return_metrics (orders_of c) (returns_of c)), c)"

subsection \<open>A concrete run\<close>

text \<open>
  One product, a restocking frequency of \<open>7\<close>, a demand variability of \<open>0.2\<close>, and a random
  source whose draws give: on day \<open>0\<close> a base demand of \<open>1\<close>, a noise factor of \<open>1.0\<close>, an
  initial stock of \<open>120\<close>, a restock quantity of \<open>60\<close> and a price factor of \<open>1.0\<close>; on day
  \<open>1\<close> a base demand of \<open>10\<close>, a noise factor of \<open>1.0\<close> and a price factor of \<open>0.95\<close>.
  \<open>demo_run\<close> is the frame that the simulator returns for two days.
\<close>

definition demo_cfg :: config where
  "demo_cfg = \<lparr>RESTOCKING_FREQUENCY = 7, DEMAND_VARIABILITY = 1 / 5\<rparr>"

definition demo_catalog :: "product list" where
  "demo_catalog =
     [\<lparr>p_id = 1, p_title = ''Backpack'', p_category = ''bags'', p_price = 100\<rparr>]"

definition demo_draws :: rng where
  "demo_draws = [0, 4503599627370496, 70, 10, 4503599627370496, 9, 4503599627370496, 0]"

definition demo_run :: "enriched_record list" where
  "demo_run =
     [\<lparr>date = 0, product_id = 1, product_name = ''Backpack'', category = ''bags'',
       daily_demand = 1, stock_level = 179, restock_amount = 60, restocked = True,
       price = 100, original_price = 100, price_change_pct = 0,
       days_of_inventory = Fin 179, stockout_risk = False,
       annualized_turnover = 365 / 179, fill_rate = 1\<rparr>,
      \<lparr>date = 1, product_id = 1, product_name = ''Backpack'', category = ''bags'',
       daily_demand = 10, stock_level = 169, restock_amount = 0, restocked = False,
       price = 95, original_price = 100, price_change_pct = - 5,
       days_of_inventory = Fin (169 / 10), stockout_risk = False,
       annualized_turnover = 3650 / 169, fill_rate = 1\<rparr>]"

text \<open>
  Two raw records for the enrichment: a day without demand (the record that the simulator
  builds for one day when every draw of the random source is \<open>0\<close>), and a day on which the
  stock has run out.
\<close>

definition zero_demand_record :: inventory_record where
  "zero_demand_record =
     \<lparr>date = 0, product_id = 1, product_name = ''Backpack'', category = ''bags'',
      daily_demand = 0, stock_level = 100, restock_amount = 50, restocked = True,
      price = 95, original_price = 100, price_change_pct = - 5\<rparr>"

definition stockout_record :: inventory_record where
  "stockout_record =
     \<lparr>date = 3, product_id = 1, product_name = ''Backpack'', category = ''bags'',
      daily_demand = 5, stock_level = 0, restock_amount = 0, restocked = False,
      price = 95, original_price = 100, price_change_pct = - 5\<rparr>"

subsection \<open>Concrete order, return and inventory collections\<close>

text \<open>
  Two orders, the first shipped on the day it was placed (a lead time of \<open>0\<close> days), the
  second after \<open>5\<close> days; one return; thresholds of \<open>3\<close> and \<open>7\<close> days for the lead time
  and of \<open>0.95\<close>, \<open>0.9\<close> and \<open>0.8\<close> for the fill rate; an inventory of two products.
\<close>

definition demo_thresholds :: lead_time_thresholds where
  "demo_thresholds = \<lparr>lt_excellent = 3, lt_good = 7\<rparr>"

definition demo_orders :: orders_frame where
  "demo_orders =
     \<lparr>o_columns = [''Order ID'', ''Order Date'', ''Ship Date'', ''category'', ''Sales'',
        ''Lead Time (Days)''],
      o_rows =
        [\<lparr>order_id = ''CA-1'', order_date = Some 10, ship_date = Some 10,
          order_category = Some ''Books'', sales = 20, lead_time_days = Some 0,
          lead_time_grade = None, delivery_date = None, cycle_time_days = None\<rparr>,
         \<lparr>order_id = ''CA-2'', order_date = Some 11, ship_date = Some 16,
          order_category = Some ''Books'', sales = 35, lead_time_days = Some 5,
          lead_time_grade = None, delivery_date = None, cycle_time_days = None\<rparr>]\<rparr>"

definition demo_returns :: returns_frame where
  "demo_returns =
     \<lparr>r_columns = [''Return ID'', ''Order ID'', ''Return Date'', ''category''],
      r_rows = [\<lparr>return_id = ''R-1'', return_order_id = ''CA-2'', return_date = Some 30,
                 return_category = Some ''Books''\<rparr>]\<rparr>"

definition no_orders :: orders_frame where
  "no_orders = demo_orders\<lparr>o_rows := []\<rparr>"

definition demo_fill_thresholds :: fill_rate_thresholds where
  "demo_fill_thresholds = \<lparr>fr_excellent = 19 / 20, fr_good = 9 / 10, fr_poor = 4 / 5\<rparr>"

definition short_record :: inventory_record where
  "short_record =
     \<lparr>date = 0, product_id = 2, product_name = ''Lamp'', category = ''home'',
      daily_demand = 50, stock_level = 46, restock_amount = 0, restocked = False,
      price = 20, original_price = 20, price_change_pct = 0\<rparr>"

definition demo_inventory :: "enriched_record list" where
  "demo_inventory = [enrich zero_demand_record, enrich short_record]"

text \<open>
  The collections of a caller, with the concrete orders, inventory and returns, and the
  same collections with orders that have no \<^verbatim>\<open>Ship Date\<close> column.
\<close>

definition demo_analytics :: analytics_config where
  "demo_analytics =
     \<lparr>LEAD_TIME_THRESHOLDS = demo_thresholds, FILL_RATE_THRESHOLDS = demo_fill_thresholds\<rparr>"

definition demo_collections :: collections where
  "demo_collections =
     \<lparr>orders_of = demo_orders, inventory_of = demo_inventory, returns_of = Some demo_returns\<rparr>"

definition orders_without_ship_date :: orders_frame where
  "orders_without_ship_date =
     demo_orders\<lparr>o_columns := [''Order ID'', ''Order Date'', ''category'', ''Sales'',
                                ''Lead Time (Days)'']\<rparr>"

definition collections_without_ship_date :: collections where
  "collections_without_ship_date = demo_collections\<lparr>orders_of := orders_without_ship_date\<rparr>"

subsection \<open>Predicates of the properties\<close>

text \<open>The clamping invariant of a simulated record.\<close>

definition non_negative :: "inventory_record \<Rightarrow> bool" where
  "non_negative r = (0 \<le> stock_level r \<and> 0 \<le> daily_demand r)"

text \<open>
  The order frame without the column \<^verbatim>\<open>lead_time_grade\<close>, and the order frame without
  the columns \<^verbatim>\<open>Delivery Date\<close> and \<^verbatim>\<open>Cycle Time (Days)\<close>: two frames that agree on
  one of them have the same rows, the same cells in every column that is left, and the
  same columns left, in the same order.
\<close>

definition drop_grade :: "orders_frame \<Rightarrow> orders_frame" where
  "drop_grade df =
     \<lparr>o_columns = filter (\<lambda>c. c \<noteq> ''lead_time_grade'') (o_columns df),
      o_rows = map (\<lambda>r. r\<lparr>lead_time_grade := None\<rparr>) (o_rows df)\<rparr>"

definition drop_cycle :: "orders_frame \<Rightarrow> orders_frame" where
  "drop_cycle df =
     \<lparr>o_columns = filter (\<lambda>c. c \<noteq> ''Delivery Date'' \<and> c \<noteq> ''Cycle Time (Days)'')
                   (o_columns df),
      o_rows = map (\<lambda>r. r\<lparr>delivery_date := None, cycle_time_days := None\<rparr>) (o_rows df)\<rparr>"

text \<open>
  The test \<^verbatim>\<open>df_returns is not None and not df_returns.empty\<close> of
  \<^verbatim>\<open>compute_return_metrics\<close>.
\<close>

definition has_return_data :: "returns_frame option \<Rightarrow> bool" where
  "has_return_data df_returns =
     (case df_returns of None \<Rightarrow> False | Some rets \<Rightarrow> \<not> frame_empty rets)"

text \<open>
  The restocking of a record as each simulator does it: \<^verbatim>\<open>api_connector.py\<close> restocks on
  every day that the frequency divides, \<^verbatim>\<open>api_ingestor.py\<close> on every such day after the
  first.
\<close>

definition connector_restock_policy :: "config \<Rightarrow> int \<Rightarrow> 'a inventory_record_scheme \<Rightarrow> bool" where
  "connector_restock_policy cfg s r =
     ((restocked r \<longleftrightarrow> 0 < restock_amount r)
      \<and> (restocked r \<longleftrightarrow> (date r - s) mod RESTOCKING_FREQUENCY cfg = 0)
      \<and> (if restocked r then 50 \<le> restock_amount r \<and> restock_amount r \<le> 100
          else restock_amount r = 0))"

definition ingestor_restock_policy :: "config \<Rightarrow> int \<Rightarrow> 'a inventory_record_scheme \<Rightarrow> bool" where
  "ingestor_restock_policy cfg s r =
     ((restocked r \<longleftrightarrow> 0 < restock_amount r)
      \<and> (restocked r \<longleftrightarrow> 0 < date r - s \<and> (date r - s) mod RESTOCKING_FREQUENCY cfg = 0)
      \<and> (if restocked r then 75 \<le> restock_amount r \<and> restock_amount r \<le> 150
          else restock_amount r = 0))"

section \<open>Properties of the simulator\<close>

lemma enrich_base [simp]:
  "daily_demand (enrich r) = daily_demand r"
  "stock_level (enrich r) = stock_level r"
  "restocked (enrich r) = restocked r"
  "restock_amount (enrich r) = restock_amount r"
  "date (enrich r) = date r"
  "product_id (enrich r) = product_id r"
  by (simp_all add: enrich_def Let_def inventory_record.defs)

lemma enrich_derived:
  "days_of_inventory (enrich r) =
     (if daily_demand r > 0 then Fin (real_of_int (stock_level r) / real_of_int (daily_demand r))
      else PInf)"
  "stockout_risk (enrich r) = np_less (days_of_inventory (enrich r)) (Fin 3)"
  "annualized_turnover (enrich r) =
     (if stock_level r > 0
      then real_of_int (daily_demand r * 365) / real_of_int (stock_level r) else 0)"
  "fill_rate (enrich r) =
     (if daily_demand r > 0
      then min 1 (real_of_int (stock_level r) / real_of_int (daily_demand r)) else 1)"
  by (simp_all add: enrich_def Let_def inventory_record.defs enriched_record.defs)

text \<open>One pass of the loop body appends one record, with clamped stock and demand.\<close>

lemma simulate_item_appends:
  assumes "simulate_item cfg s day item (recs, g) = Inr (recs', g')"
  shows "\<exists>r. recs' = recs @ [r] \<and> 0 \<le> stock_level r \<and> 0 \<le> daily_demand r"
  using assms
  by (auto simp: simulate_item_def Let_def split: prod.splits if_splits option.splits)

text \<open>A property of every appended record is a property of all records of the run.\<close>

lemma simulate_products_invariant:
  assumes step: "\<And>item recs g recs' g'.
      simulate_item cfg s day item (recs, g) = Inr (recs', g') \<Longrightarrow> \<exists>r. recs' = recs @ [r] \<and> P r"
    and run: "simulate_products cfg s day items st = Inr st'"
    and init: "\<forall>r \<in> set (fst st). P r"
  shows "\<forall>r \<in> set (fst st'). P r"
  using run init
proof (induction items arbitrary: st)
  case Nil
  then show ?case by simp
next
  case (Cons item items)
  from Cons.prems(1) obtain st1 where
    one: "simulate_item cfg s day item st = Inr st1" and
    rest: "simulate_products cfg s day items st1 = Inr st'"
    by (auto split: sum.splits)
  obtain recs g recs1 g1 where st: "st = (recs, g)" and st1: "st1 = (recs1, g1)"
    by (metis surj_pair)
  from step [OF one [unfolded st st1]] Cons.prems(2)
  have "\<forall>r \<in> set (fst st1). P r"
    by (auto simp: st st1)
  with Cons.IH [OF rest] show ?case by simp
qed

lemma simulate_days_invariant:
  assumes step: "\<And>day item recs g recs' g'.
      simulate_item cfg s day item (recs, g) = Inr (recs', g') \<Longrightarrow> \<exists>r. recs' = recs @ [r] \<and> P r"
    and run: "simulate_days cfg s product_df days st = Inr st'"
    and init: "\<forall>r \<in> set (fst st). P r"
  shows "\<forall>r \<in> set (fst st'). P r"
  using run init
proof (induction days arbitrary: st)
  case Nil
  then show ?case by simp
next
  case (Cons day days)
  from Cons.prems(1) obtain st1 where
    one: "simulate_products cfg s day product_df st = Inr st1" and
    rest: "simulate_days cfg s product_df days st1 = Inr st'"
    by (auto split: sum.splits)
  from simulate_products_invariant [of cfg s day P, OF step one Cons.prems(2)]
    Cons.IH [OF rest]
  show ?case by simp
qed

lemma simulate_days_non_negative:
  assumes "simulate_days cfg s product_df days st = Inr st'"
    and "\<forall>r \<in> set (fst st). non_negative r"
  shows "\<forall>r \<in> set (fst st'). non_negative r"
proof (rule simulate_days_invariant [OF _ assms])
  fix day item recs g recs' g'
  assume "simulate_item cfg s day item (recs, g) = Inr (recs', g')"
  from simulate_item_appends [OF this]
  show "\<exists>r. recs' = recs @ [r] \<and> non_negative r"
    by (simp add: non_negative_def)
qed

text \<open>What a successful call returns: the enriched records of the simulated list.\<close>

lemma simulate_inventory_activity_Some:
  assumes "simulate_inventory_activity cfg g s product_df simulation_days = Some inventory_df"
  obtains recs g' where
    "simulate_days cfg s product_df [0..<nat simulation_days] ([], g) = Inr (recs, g')"
    "inventory_df = map enrich recs"
  using assms
  by (auto simp: simulate_inventory_activity_def simulate_inventory_body_def
      append_inventory_metrics_def DataFrame_def split: sum.splits prod.splits if_splits)

subsection \<open>Evaluating the concrete run\<close>

lemma upt_2: "[0..<2] = [0, Suc 0]"
  by (simp add: numeral_2_eq_2)

lemmas sim_eval = simulate_inventory_activity_def simulate_inventory_body_def
  append_inventory_metrics_def DataFrame_def record_keys_def
  simulate_item_def randint_def uniform_def next_raw_def py_int_def Let_def
  enrich_def inventory_record.defs enriched_record.defs

lemma demo_run_eq:
  "simulate_inventory_activity demo_cfg demo_draws 0 demo_catalog 2 = Some demo_run"
  by (simp add: sim_eval upt_2 demo_cfg_def demo_catalog_def demo_draws_def demo_run_def)

lemma zero_demand_run_eq:
  "simulate_inventory_activity demo_cfg [] 0 demo_catalog 1 = Some [enrich zero_demand_record]"
  by (simp add: sim_eval demo_cfg_def demo_catalog_def zero_demand_record_def)

subsection \<open>The enrichment of a frame\<close>

lemma append_inventory_metrics_Inr:
  assumes "append_inventory_metrics df = Inr out" and "e \<in> set out"
  obtains r where "r \<in> set (rows df)" and "e = enrich r"
  using assms by (auto simp: append_inventory_metrics_def split: if_splits)

lemma append_inventory_metrics_DataFrame:
  "recs \<noteq> [] \<Longrightarrow> append_inventory_metrics (DataFrame recs) = Inr (map enrich recs)"
  by (simp add: append_inventory_metrics_def DataFrame_def record_keys_def)

lemma fill_rate_enrich_bounds:
  assumes "0 \<le> stock_level r"
  shows "0 \<le> fill_rate (enrich r) \<and> fill_rate (enrich r) \<le> 1"
  using assms by (simp add: enrich_derived)

subsection \<open>The restocking of the two simulators\<close>

lemma randint_range:
  assumes "a \<le> b" and "randint a b g = (x, g')"
  shows "a \<le> x \<and> x \<le> b"
proof -
  obtain n where x: "x = a + int (n mod nat (b - a + 1))"
    using assms(2) by (auto simp: randint_def split: prod.splits)
  have pos: "0 < nat (b - a + 1)"
    using assms(1) by simp
  have "n mod nat (b - a + 1) < nat (b - a + 1)"
    using pos by (rule mod_less_divisor)
  then have "int (n mod nat (b - a + 1)) < b - a + 1"
    using assms(1) by linarith
  then show ?thesis
    unfolding x by linarith
qed

lemma randint_fst_range:
  assumes "a \<le> b"
  shows "a \<le> fst (randint a b g)" and "fst (randint a b g) \<le> b"
  using randint_range [OF assms, of g "fst (randint a b g)" "snd (randint a b g)"]
  by simp_all

lemma restock_draw:
  "50 \<le> fst (randint 50 100 g)" "fst (randint 50 100 g) \<le> 100" "0 < fst (randint 50 100 g)"
  "75 \<le> fst (randint 75 150 g)" "fst (randint 75 150 g) \<le> 150" "0 < fst (randint 75 150 g)"
  using randint_fst_range [of 50 100 g] randint_fst_range [of 75 150 g] by simp_all

lemma simulate_item_policy:
  assumes "simulate_item cfg s day item (recs, g) = Inr (recs', g')"
  shows "\<exists>r. recs' = recs @ [r] \<and> connector_restock_policy cfg s r"
  using assms
  by (auto simp: simulate_item_def connector_restock_policy_def Let_def case_prod_unfold
      restock_draw split: if_splits)

lemma ingestor_day_policy:
  assumes "ingestor_day cfg s n item day (recs, g, b) = Inr (recs', g', b')"
  shows "\<exists>r. recs' = recs @ [r] \<and> ingestor_restock_policy cfg s r
    \<and> b' = b * (trend_factor powr (1 / real_of_int n))"
  using assms
  by (auto simp: ingestor_day_def ingestor_restock_policy_def Let_def case_prod_unfold
      restock_draw split: if_splits)


text \<open>
  Every record that the simulator of \<^verbatim>\<open>api_connector.py\<close> returns is restocked exactly
  when the frequency divides its day, day \<open>0\<close> included.
\<close>

lemma connector_restocking:
  assumes "simulate_inventory_activity cfg g s product_df simulation_days = Some inventory_df"
    and "r \<in> set inventory_df"
  shows "connector_restock_policy cfg s r"
proof -
  from assms(1) obtain recs g' where
    run: "simulate_days cfg s product_df [0..<nat simulation_days] ([], g) = Inr (recs, g')"
    and df: "inventory_df = map enrich recs"
    by (rule simulate_inventory_activity_Some)
  have "\<forall>x \<in> set (fst (recs, g')). connector_restock_policy cfg s x"
    by (rule simulate_days_invariant [OF simulate_item_policy run]) simp_all
  with assms(2) df show ?thesis
    by (auto simp: connector_restock_policy_def)
qed

lemma connector_day_0_restocked:
  assumes "simulate_inventory_activity cfg g s product_df simulation_days = Some inventory_df"
    and "r \<in> set inventory_df" and "date r = s"
  shows "restocked r \<and> 50 \<le> restock_amount r"
  using connector_restocking [OF assms(1,2)] assms(3)
  by (auto simp: connector_restock_policy_def split: if_splits)

text \<open>
  Every record that the simulator of \<^verbatim>\<open>api_ingestor.py\<close> returns is restocked exactly
  when the frequency divides its day and the day is not the first; and the base demand
  of a product grows by \<open>trend_factor ^ (1 / simulation_days)\<close> with every day
  (\<open>ingestor_day_policy\<close>).
\<close>

lemma ingestor_days_invariant:
  assumes "ingestor_days cfg s n item days st = Inr st'"
    and "\<forall>r \<in> set (fst st). ingestor_restock_policy cfg s r"
  shows "\<forall>r \<in> set (fst st'). ingestor_restock_policy cfg s r"
  using assms
proof (induction days arbitrary: st)
  case Nil
  then show ?case by simp
next
  case (Cons day days)
  from Cons.prems(1) obtain st1 where
    one: "ingestor_day cfg s n item day st = Inr st1" and
    rest: "ingestor_days cfg s n item days st1 = Inr st'"
    by (auto split: sum.splits)
  obtain recs g b recs1 g1 b1 where st: "st = (recs, g, b)" and st1: "st1 = (recs1, g1, b1)"
    by (metis surj_pair)
  from ingestor_day_policy [OF one [unfolded st st1]] Cons.prems(2)
  have "\<forall>r \<in> set (fst st1). ingestor_restock_policy cfg s r"
    by (auto simp: st st1)
  with Cons.IH [OF rest] show ?case by simp
qed

lemma ingestor_products_invariant:
  assumes "ingestor_products cfg s n items st = Inr st'"
    and "\<forall>r \<in> set (fst st). ingestor_restock_policy cfg s r"
  shows "\<forall>r \<in> set (fst st'). ingestor_restock_policy cfg s r"
  using assms
proof (induction items arbitrary: st)
  case Nil
  then show ?case by simp
next
  case (Cons item items)
  obtain recs g where st: "st = (recs, g)"
    by (metis surj_pair)
  from Cons.prems(1) obtain recs1 g1 b1 where
    one: "ingestor_days cfg s n item [0..<nat n]
            (recs, snd (uniform 5 20 g), fst (uniform 5 20 g)) = Inr (recs1, g1, b1)" and
    rest: "ingestor_products cfg s n items (recs1, g1) = Inr st'"
    by (auto simp: st case_prod_unfold split: sum.splits)
  from ingestor_days_invariant [OF one] Cons.prems(2)
  have "\<forall>r \<in> set (fst (recs1, g1)). ingestor_restock_policy cfg s r"
    by (simp add: st)
  with Cons.IH [OF rest] show ?case by simp
qed

lemma ingestor_restocking:
  assumes "ingestor_simulate_inventory_activity cfg g s product_df simulation_days
      = Some inventory_df"
    and "r \<in> set inventory_df"
  shows "ingestor_restock_policy cfg s r"
proof -
  from assms(1) obtain recs g' where
    run: "ingestor_products cfg s simulation_days product_df ([], g) = Inr (recs, g')"
    and df: "inventory_df = map enrich recs"
    by (auto simp: ingestor_simulate_inventory_activity_def append_inventory_metrics_def
        DataFrame_def split: sum.splits prod.splits if_splits)
  from ingestor_products_invariant [OF run]
  have "\<forall>x \<in> set recs. ingestor_restock_policy cfg s x"
    by simp
  with assms(2) df show ?thesis
    by (auto simp: ingestor_restock_policy_def)
qed

lemma ingestor_day_0_not_restocked:
  assumes "ingestor_simulate_inventory_activity cfg g s product_df simulation_days
      = Some inventory_df"
    and "r \<in> set inventory_df" and "date r = s"
  shows "\<not> restocked r \<and> restock_amount r = 0"
  using ingestor_restocking [OF assms(1,2)] assms(3)
  by (auto simp: ingestor_restock_policy_def split: if_splits)

subsection \<open>Non-negativity (C6)\<close>

text \<open>
  Claim C6. Every record that \<^verbatim>\<open>simulate_inventory_activity\<close> produces has
  \<open>stock_level \<ge> 0\<close> and \<open>daily_demand \<ge> 0\<close>: the demand is \<open>max(0, int(...))\<close> and the
  stored stock is \<open>max(0, current_stock)\<close>, whatever the random source, the catalog, the
  configuration and the number of days are.
\<close>

theorem simulated_records_non_negative:
  assumes "simulate_inventory_activity cfg g s product_df simulation_days = Some inventory_df"
    and "r \<in> set inventory_df"
  shows "0 \<le> stock_level r \<and> 0 \<le> daily_demand r"
proof -
  from assms(1) obtain recs g' where
    run: "simulate_days cfg s product_df [0..<nat simulation_days] ([], g) = Inr (recs, g')"
    and df: "inventory_df = map enrich recs"
    by (rule simulate_inventory_activity_Some)
  from simulate_days_non_negative [OF run] have "\<forall>x \<in> set recs. non_negative x"
    by simp
  with assms(2) df show ?thesis
    by (auto simp: non_negative_def)
qed

theorem simulated_records_non_negative_witness:
  "simulate_inventory_activity demo_cfg demo_draws 0 demo_catalog 2 = Some demo_run
   \<and> demo_run ! 1 \<in> set demo_run
   \<and> 0 \<le> stock_level (demo_run ! 1) \<and> 0 \<le> daily_demand (demo_run ! 1)"
proof -
  have mem: "demo_run ! 1 \<in> set demo_run"
    by (simp add: demo_run_def)
  from simulated_records_non_negative [OF demo_run_eq mem] demo_run_eq mem
  show ?thesis by simp
qed

subsection \<open>Zero demand and the fill rate bound (C7)\<close>

text \<open>
  Claim C7. A record with \<open>daily_demand = 0\<close> is enriched with
  \<open>days_of_inventory = +infinity\<close>, \<open>fill_rate = 1.0\<close> and \<open>stockout_risk = false\<close>; and every
  enriched record has \<open>0 \<le> fill_rate \<le> 1\<close>. The first part holds for every row of every
  frame that \<^verbatim>\<open>_append_inventory_metrics\<close> enriches. The bound holds for every row whose
  stock level is not negative, and so for every record that
  \<^verbatim>\<open>simulate_inventory_activity\<close> returns, the only caller of the enrichment.
\<close>

theorem zero_demand_sentinel_and_fill_rate_bound:
  "(append_inventory_metrics df = Inr out \<longrightarrow> e \<in> set out \<longrightarrow> daily_demand e = 0 \<longrightarrow>
      days_of_inventory e = PInf \<and> fill_rate e = 1 \<and> \<not> stockout_risk e)
   \<and> (append_inventory_metrics df = Inr out \<longrightarrow> e \<in> set out \<longrightarrow> 0 \<le> stock_level e \<longrightarrow>
      0 \<le> fill_rate e \<and> fill_rate e \<le> 1)
   \<and> (simulate_inventory_activity cfg g s product_df simulation_days = Some inventory_df \<longrightarrow>
      e' \<in> set inventory_df \<longrightarrow> 0 \<le> fill_rate e' \<and> fill_rate e' \<le> 1)"
proof (intro conjI impI)
  assume out: "append_inventory_metrics df = Inr out" "e \<in> set out"
  then obtain r where e: "e = enrich r"
    by (rule append_inventory_metrics_Inr)
  { assume "daily_demand e = 0"
    then show "days_of_inventory e = PInf" "fill_rate e = 1" "\<not> stockout_risk e"
      by (simp_all add: e enrich_derived) }
  { assume "0 \<le> stock_level e"
    then show "0 \<le> fill_rate e" "fill_rate e \<le> 1"
      using fill_rate_enrich_bounds [of r] by (simp_all add: e) }
next
  assume run: "simulate_inventory_activity cfg g s product_df simulation_days = Some inventory_df"
    and mem: "e' \<in> set inventory_df"
  from run obtain recs g' where
    days: "simulate_days cfg s product_df [0..<nat simulation_days] ([], g) = Inr (recs, g')"
    and df: "inventory_df = map enrich recs"
    by (rule simulate_inventory_activity_Some)
  from mem df obtain r where r: "r \<in> set recs" "e' = enrich r"
    by auto
  from simulate_days_non_negative [OF days] r(1) have "0 \<le> stock_level r"
    by (simp add: non_negative_def)
  then show "0 \<le> fill_rate e'" "fill_rate e' \<le> 1"
    using fill_rate_enrich_bounds [of r] by (simp_all add: r(2))
qed

theorem zero_demand_sentinel_and_fill_rate_bound_witness:
  "append_inventory_metrics (DataFrame [zero_demand_record]) = Inr [enrich zero_demand_record]
   \<and> simulate_inventory_activity demo_cfg [] 0 demo_catalog 1 = Some [enrich zero_demand_record]
   \<and> enrich zero_demand_record \<in> set [enrich zero_demand_record]
   \<and> daily_demand (enrich zero_demand_record) = 0
   \<and> 0 \<le> stock_level (enrich zero_demand_record)
   \<and> days_of_inventory (enrich zero_demand_record) = PInf
   \<and> fill_rate (enrich zero_demand_record) = 1
   \<and> \<not> stockout_risk (enrich zero_demand_record)
   \<and> 0 \<le> fill_rate (enrich zero_demand_record)
   \<and> fill_rate (enrich zero_demand_record) \<le> 1"
proof -
  have frame: "append_inventory_metrics (DataFrame [zero_demand_record]) =
      Inr [enrich zero_demand_record]"
    by (simp add: append_inventory_metrics_DataFrame)
  have base: "daily_demand (enrich zero_demand_record) = 0"
    "0 \<le> stock_level (enrich zero_demand_record)"
    by (simp_all add: zero_demand_record_def)
  from zero_demand_sentinel_and_fill_rate_bound
    [of "DataFrame [zero_demand_record]" "[enrich zero_demand_record]"
      "enrich zero_demand_record" demo_cfg "[]" 0 demo_catalog 1
      "[enrich zero_demand_record]" "enrich zero_demand_record"]
    frame zero_demand_run_eq base
  show ?thesis by simp
qed

subsection \<open>Zero stock (C9)\<close>

text \<open>
  Claim C9. A record with \<open>stock_level = 0\<close> and \<open>daily_demand > 0\<close> is enriched with
  \<open>days_of_inventory = 0\<close> and \<open>stockout_risk = true\<close>, next to \<open>annualized_turnover = 0\<close>
  and \<open>fill_rate = 0\<close>: for every row of every frame that \<^verbatim>\<open>_append_inventory_metrics\<close>
  enriches.
\<close>

theorem zero_stock_sentinel:
  assumes "append_inventory_metrics df = Inr out" and "e \<in> set out"
    and "stock_level e = 0" and "0 < daily_demand e"
  shows "days_of_inventory e = Fin 0 \<and> stockout_risk e
    \<and> annualized_turnover e = 0 \<and> fill_rate e = 0"
proof -
  from assms(1,2) obtain r where e: "e = enrich r"
    by (rule append_inventory_metrics_Inr)
  from assms(3,4) show ?thesis
    by (simp add: e enrich_derived)
qed

theorem zero_stock_sentinel_witness:
  "append_inventory_metrics (DataFrame [stockout_record]) = Inr [enrich stockout_record]
   \<and> enrich stockout_record \<in> set [enrich stockout_record]
   \<and> stock_level (enrich stockout_record) = 0
   \<and> 0 < daily_demand (enrich stockout_record)
   \<and> days_of_inventory (enrich stockout_record) = Fin 0
   \<and> stockout_risk (enrich stockout_record)
   \<and> annualized_turnover (enrich stockout_record) = 0
   \<and> fill_rate (enrich stockout_record) = 0"
proof -
  have frame: "append_inventory_metrics (DataFrame [stockout_record]) =
      Inr [enrich stockout_record]"
    by (simp add: append_inventory_metrics_DataFrame)
  have mem: "enrich stockout_record \<in> set [enrich stockout_record]"
    by simp
  have base: "stock_level (enrich stockout_record) = 0"
    "0 < daily_demand (enrich stockout_record)"
    by (simp_all add: stockout_record_def)
  from zero_stock_sentinel [OF frame mem base] frame base
  show ?thesis by simp
qed

subsection \<open>The empty catalog (C3)\<close>

text \<open>
  Claim C3 says that an empty product catalog gives an empty record sequence and no error.
  The code does not do that: the loops append nothing, \<^verbatim>\<open>pd.DataFrame([])\<close> has no
  columns, \<^verbatim>\<open>df['daily_demand']\<close> in \<^verbatim>\<open>_append_inventory_metrics\<close> raises \<^verbatim>\<open>KeyError\<close>,
  and the handler of \<^verbatim>\<open>simulate_inventory_activity\<close> logs the error and returns \<^verbatim>\<open>None\<close>,
  the value by which the method reports a failure. This holds for every configuration,
  random source and number of days.
\<close>

theorem empty_catalog_returns_None:
  "simulate_inventory_activity cfg g simulation_start [] simulation_days = None"
proof -
  have "simulate_days cfg simulation_start [] days st = Inr st" for days st
    by (induction days) simp_all
  then show ?thesis
    by (simp add: simulate_inventory_activity_def simulate_inventory_body_def
        append_inventory_metrics_def DataFrame_def)
qed

subsection \<open>Restocking on day 0 (C1)\<close>

text \<open>
  Claim C1 says that \<open>restocked\<close> holds exactly when \<open>restock_amount > 0\<close>, that a restock
  happens only on a day \<open>d > 0\<close> with \<open>d mod restocking_frequency = 0\<close>, and that a record of
  day \<open>0\<close> has \<open>restocked = false\<close> and \<open>restock_amount = 0\<close>. The test of
  \<^verbatim>\<open>api_connector.py\<close> is \<^verbatim>\<open>day % RESTOCKING_FREQUENCY == 0\<close>, without \<^verbatim>\<open>day > 0\<close>: on the
  concrete run of one day the only record is of day \<open>0\<close>, and it is restocked with \<open>60\<close>
  units. So is every record of day \<open>0\<close> of every run (\<open>connector_day_0_restocked\<close>), while
  \<^verbatim>\<open>api_ingestor.py\<close>, which tests \<^verbatim>\<open>day > 0 and day % RESTOCKING_FREQUENCY == 0\<close>, never
  restocks on day \<open>0\<close> (\<open>ingestor_day_0_not_restocked\<close>). The first part of the claim,
  \<open>restocked\<close> exactly when \<open>restock_amount > 0\<close>, holds in both (\<open>connector_restocking\<close>,
  \<open>ingestor_restocking\<close>).
\<close>

theorem connector_restocks_on_day_0:
  "simulate_inventory_activity demo_cfg demo_draws 0 demo_catalog 1 = Some [demo_run ! 0]
   \<and> date (demo_run ! 0) = 0 \<and> restocked (demo_run ! 0) = True
   \<and> restock_amount (demo_run ! 0) = 60"
  by (simp add: sim_eval demo_cfg_def demo_catalog_def demo_draws_def demo_run_def)

subsection \<open>The demand of a day (C2)\<close>

text \<open>
  Claim C2 says that the base demand of a product is sampled once and compounded by
  \<open>trend_factor ^ (1 / simulation_days)\<close> from one day to the next, with a seasonal factor
  per day. \<^verbatim>\<open>api_connector.py\<close> draws \<^verbatim>\<open>base_demand = random.randint(1, 10)\<close> inside the
  loop over the days, for every product and day, and has neither a seasonal factor nor a
  trend: on the concrete run the demand of the one product is \<open>1\<close> on day \<open>0\<close> and \<open>10\<close> on
  day \<open>1\<close>, with a noise factor of \<open>1.0\<close> on both days. \<^verbatim>\<open>api_ingestor.py\<close> has the
  recurrence of the claim: one draw of the base demand per product, a factor for the
  weekday, and the growth of the base demand from day to day (\<open>ingestor_day_policy\<close>).
\<close>

theorem connector_resamples_base_demand:
  "simulate_inventory_activity demo_cfg demo_draws 0 demo_catalog 2 = Some demo_run
   \<and> map product_id demo_run = [1, 1] \<and> map date demo_run = [0, 1]
   \<and> map daily_demand demo_run = [1, 10]"
  using demo_run_eq by (simp add: demo_run_def)

section \<open>Properties of the analytics\<close>

subsection \<open>Lead time grades (C4)\<close>

lemma cut_zero: "bins_increase thr \<Longrightarrow> cut thr (Some 0) = None"
  by (simp add: cut_def bins_increase_def)

lemma cut_positive:
  assumes "bins_increase thr" and "0 < x"
  shows "cut thr (Some x) =
    Some (if real_of_int x \<le> lt_excellent thr then Excellent
          else if real_of_int x \<le> lt_good thr then Good else Poor)"
  using assms by (auto simp: cut_def bins_increase_def)

lemmas lead_eval = compute_lead_time_stats_def bins_increase_def cut_def set_column_def
  value_counts_normalize_def List.map_filter_def Let_def

text \<open>
  Claim C4 says that an order with a lead time of at most the excellent threshold is graded
  Excellent, that the three grades partition the orders with a lead time, and that an
  order with \<open>lead_time_days = 0\<close> is graded Excellent. The bins of \<^verbatim>\<open>pd.cut\<close> start at
  \<open>0\<close> and are open on the left: a positive lead time gets the grade that the claim
  describes (\<open>cut_positive\<close>), a lead time of \<open>0\<close> gets none (\<open>cut_zero\<close>) and is left out of
  the proportions. On the two concrete orders the one shipped on the day of the order has
  no grade, and the proportions are those of the other order alone.
\<close>

theorem lead_time_zero_not_graded:
  "map lead_time_days (o_rows demo_orders) = [Some 0, Some 5]
   \<and> map lead_time_grade (o_rows (snd (compute_lead_time_stats demo_thresholds demo_orders)))
     = [None, Some Good]
   \<and> map_option excellent_ratio (fst (compute_lead_time_stats demo_thresholds demo_orders))
     = Some (Fin 0)
   \<and> map_option good_ratio (fst (compute_lead_time_stats demo_thresholds demo_orders))
     = Some (Fin 1)"
  by (simp add: lead_eval demo_thresholds_def demo_orders_def)

subsection \<open>What the aggregations write (C5)\<close>

lemma set_column_filter:
  "\<not> P name \<Longrightarrow> filter P (set_column name cols) = filter P cols"
  by (simp add: set_column_def)

lemma drop_grade_lead_time:
  "drop_grade (snd (compute_lead_time_stats thr df)) = drop_grade df"
  by (simp add: compute_lead_time_stats_def drop_grade_def Let_def set_column_filter comp_def)

lemma length_np_randint: "length (fst (np_randint low high n g)) = n"
proof (induction n arbitrary: g)
  case 0
  then show ?case by simp
next
  case (Suc n)
  from Suc [of "snd (next_raw g)"] show ?case
    by (simp add: case_prod_unfold)
qed

lemma map_zip_left:
  assumes "length ks = length rs" and "\<And>r k. f (h r k) = f r"
  shows "map (\<lambda>(r, k). f (h r k)) (zip rs ks) = map f rs"
  using assms by (induction rs ks rule: list_induct2') auto

lemma drop_cycle_cycle_time:
  assumes "''Ship Date'' \<in> set (o_columns df)"
  shows "drop_cycle (snd (compute_cycle_time thr g df)) = drop_cycle df"
proof -
  have rows: "map ((\<lambda>r. r\<lparr>delivery_date := None, cycle_time_days := None\<rparr>)
       \<circ> (\<lambda>(r, k). r\<lparr>delivery_date := add_days (ship_date r) k\<rparr>))
      (zip (o_rows df) (fst (np_randint 2 6 (length (o_rows df)) g)))
    = map (\<lambda>r. r\<lparr>delivery_date := None, cycle_time_days := None\<rparr>) (o_rows df)"
    using map_zip_left [of "fst (np_randint 2 6 (length (o_rows df)) g)" "o_rows df"
        "\<lambda>r. r\<lparr>delivery_date := None, cycle_time_days := None\<rparr>"
        "\<lambda>r k. r\<lparr>delivery_date := add_days (ship_date r) k\<rparr>"]
    by (simp add: length_np_randint comp_def case_prod_unfold)
  with assms show ?thesis
    by (simp add: compute_cycle_time_def drop_cycle_def Let_def set_column_filter comp_def
        case_prod_unfold)
qed

lemma drop_grade_cycle_time:
  assumes "''Ship Date'' \<notin> set (o_columns df)"
  shows "drop_grade (snd (compute_cycle_time thr g df)) = drop_grade df"
  using assms drop_grade_lead_time [of thr df]
  by (simp add: compute_cycle_time_def case_prod_unfold)

text \<open>
  Claim C5 says that the aggregations leave the order, inventory and return collections
  unchanged. \<^verbatim>\<open>compute_lead_time_stats\<close> assigns \<^verbatim>\<open>df_orders['lead_time_grade']\<close>: after
  the call on the concrete orders the frame has one column more.
\<close>

theorem lead_time_stats_writes_grade_column:
  "snd (compute_lead_time_stats demo_thresholds demo_orders) \<noteq> demo_orders"
  by (simp add: lead_eval demo_thresholds_def demo_orders_def)

text \<open>
  Claim C5, amended. After a call of any of the six computations the inventory and the
  return collection are unchanged, and \<^verbatim>\<open>compute_inventory_turnover\<close>,
  \<^verbatim>\<open>compute_fill_rate_stats\<close>, \<^verbatim>\<open>compute_category_metrics\<close> and
  \<^verbatim>\<open>compute_return_metrics\<close> leave the order collection unchanged too.
  \<^verbatim>\<open>compute_lead_time_stats\<close> changes the order collection in the column
  \<^verbatim>\<open>lead_time_grade\<close> only. \<^verbatim>\<open>compute_cycle_time\<close> changes it in the columns
  \<^verbatim>\<open>Delivery Date\<close> and \<^verbatim>\<open>Cycle Time (Days)\<close> only when the orders have a \<^verbatim>\<open>Ship Date\<close>
  column, and in the column \<^verbatim>\<open>lead_time_grade\<close> only when they have none. The rows, the
  cells of every other column and the other columns of the index are the same after the
  call, whatever the call returns.
\<close>

theorem aggregations_change_derived_columns_only:
  "inventory_of (snd (run_metric cfg g m c)) = inventory_of c
   \<and> returns_of (snd (run_metric cfg g m c)) = returns_of c
   \<and> orders_of (snd (run_metric cfg g Inventory_turnover c)) = orders_of c
   \<and> orders_of (snd (run_metric cfg g Fill_rate c)) = orders_of c
   \<and> orders_of (snd (run_metric cfg g Category c)) = orders_of c
   \<and> orders_of (snd (run_metric cfg g Returns c)) = orders_of c
   \<and> drop_grade (orders_of (snd (run_metric cfg g Lead_time c))) = drop_grade (orders_of c)
   \<and> (if ''Ship Date'' \<in> set (o_columns (orders_of c))
      then drop_cycle (orders_of (snd (run_metric cfg g Cycle_time c))) = drop_cycle (orders_of c)
      else drop_grade (orders_of (snd (run_metric cfg g Cycle_time c))) = drop_grade (orders_of c))"
proof -
  have "inventory_of (snd (run_metric cfg g m c)) = inventory_of c
      \<and> returns_of (snd (run_metric cfg g m c)) = returns_of c"
    by (cases m) (simp_all add: case_prod_unfold)
  moreover have "drop_grade (orders_of (snd (run_metric cfg g Lead_time c)))
      = drop_grade (orders_of c)"
    by (simp add: case_prod_unfold drop_grade_lead_time)
  moreover have "if ''Ship Date'' \<in> set (o_columns (orders_of c))
      then drop_cycle (orders_of (snd (run_metric cfg g Cycle_time c))) = drop_cycle (orders_of c)
      else drop_grade (orders_of (snd (run_metric cfg g Cycle_time c))) = drop_grade (orders_of c)"
    by (simp add: case_prod_unfold drop_cycle_cycle_time drop_grade_cycle_time)
  ultimately show ?thesis by simp
qed

theorem aggregations_change_derived_columns_only_witness:
  "''Ship Date'' \<in> set (o_columns (orders_of demo_collections))
   \<and> drop_cycle (orders_of (snd (run_metric demo_analytics [1, 3] Cycle_time demo_collections)))
     = drop_cycle demo_orders
   \<and> map delivery_date
       (o_rows (orders_of (snd (run_metric demo_analytics [1, 3] Cycle_time demo_collections))))
     = [Some 13, Some 21]
   \<and> map cycle_time_days
       (o_rows (orders_of (snd (run_metric demo_analytics [1, 3] Cycle_time demo_collections))))
     = [Some 3, Some 10]
   \<and> ''Ship Date'' \<notin> set (o_columns (orders_of collections_without_ship_date))
   \<and> drop_grade
       (orders_of (snd (run_metric demo_analytics [1, 3] Cycle_time collections_without_ship_date)))
     = drop_grade orders_without_ship_date
   \<and> map lead_time_grade
       (o_rows (orders_of
          (snd (run_metric demo_analytics [1, 3] Cycle_time collections_without_ship_date))))
     = [None, Some Good]
   \<and> drop_grade (orders_of (snd (run_metric demo_analytics [1, 3] Lead_time demo_collections)))
     = drop_grade demo_orders
   \<and> orders_of (snd (run_metric demo_analytics [1, 3] Category demo_collections)) = demo_orders
   \<and> inventory_of (snd (run_metric demo_analytics [1, 3] Cycle_time demo_collections))
     = demo_inventory
   \<and> returns_of (snd (run_metric demo_analytics [1, 3] Cycle_time demo_collections))
     = Some demo_returns"
proof -
  have cols: "''Ship Date'' \<in> set (o_columns (orders_of demo_collections))"
    "''Ship Date'' \<notin> set (o_columns (orders_of collections_without_ship_date))"
    by (simp_all add: demo_collections_def collections_without_ship_date_def
        orders_without_ship_date_def demo_orders_def)
  have frames: "orders_of demo_collections = demo_orders"
    "inventory_of demo_collections = demo_inventory"
    "returns_of demo_collections = Some demo_returns"
    "orders_of collections_without_ship_date = orders_without_ship_date"
    by (simp_all add: demo_collections_def collections_without_ship_date_def)
  have cells:
    "map delivery_date
       (o_rows (orders_of (snd (run_metric demo_analytics [1, 3] Cycle_time demo_collections))))
     = [Some 13, Some 21]"
    "map cycle_time_days
       (o_rows (orders_of (snd (run_metric demo_analytics [1, 3] Cycle_time demo_collections))))
     = [Some 3, Some 10]"
    by (simp_all add: case_prod_unfold frames compute_cycle_time_def demo_orders_def
        set_column_def Let_def next_raw_def add_days_def days_between_def numeral_2_eq_2)
  have grades:
    "map lead_time_grade
       (o_rows (orders_of
          (snd (run_metric demo_analytics [1, 3] Cycle_time collections_without_ship_date))))
     = [None, Some Good]"
    by (simp add: case_prod_unfold frames compute_cycle_time_def lead_eval demo_analytics_def
        demo_thresholds_def orders_without_ship_date_def demo_orders_def)
  from aggregations_change_derived_columns_only
      [of demo_analytics "[1, 3]" Cycle_time demo_collections]
    aggregations_change_derived_columns_only
      [of demo_analytics "[1, 3]" Cycle_time collections_without_ship_date]
    cols frames cells grades
  show ?thesis by simp
qed

subsection \<open>Return statistics (C8)\<close>

text \<open>
  Claim C8. \<^verbatim>\<open>compute_return_metrics\<close> never raises: it always returns its dictionary.
  With return data the rate is \<open>|returns| / |orders|\<close>; without orders the rate is \<open>0\<close>;
  and when the returns are absent or empty, \<open>return_total\<close> and \<open>return_ratio\<close> are \<open>0\<close>.
\<close>

theorem return_metrics_rate:
  "\<exists>st. compute_return_metrics df_orders df_returns = Some st
     \<and> order_total st = length (o_rows df_orders)
     \<and> (has_return_data df_returns \<longrightarrow>
          return_total st = length (r_rows (the df_returns))
          \<and> (0 < length (o_rows df_orders) \<longrightarrow>
               return_ratio st =
                 real (length (r_rows (the df_returns))) / real (length (o_rows df_orders))))
     \<and> (o_rows df_orders = [] \<longrightarrow> return_ratio st = 0)
     \<and> (\<not> has_return_data df_returns \<longrightarrow> return_total st = 0 \<and> return_ratio st = 0)"
  by (cases df_returns)
    (simp_all add: compute_return_metrics_def has_return_data_def no_return_data_def Let_def)

theorem return_metrics_rate_witness:
  "has_return_data (Some demo_returns) \<and> 0 < length (o_rows demo_orders)
   \<and> map_option return_ratio (compute_return_metrics demo_orders (Some demo_returns)) = Some (1 / 2)
   \<and> map_option return_total (compute_return_metrics demo_orders (Some demo_returns)) = Some 1
   \<and> o_rows no_orders = []
   \<and> map_option return_ratio (compute_return_metrics no_orders (Some demo_returns)) = Some 0
   \<and> \<not> has_return_data None
   \<and> map_option return_ratio (compute_return_metrics demo_orders None) = Some 0
   \<and> map_option return_total (compute_return_metrics demo_orders None) = Some 0"
proof -
  have hyps: "has_return_data (Some demo_returns)" "0 < length (o_rows demo_orders)"
    "o_rows no_orders = []" "\<not> has_return_data None"
    by (simp_all add: has_return_data_def frame_empty_def demo_returns_def demo_orders_def
        no_orders_def)
  have rows: "length (r_rows demo_returns) = 1" "length (o_rows demo_orders) = 2"
    by (simp_all add: demo_returns_def demo_orders_def)
  from return_metrics_rate [of demo_orders "Some demo_returns"]
    return_metrics_rate [of no_orders "Some demo_returns"]
    return_metrics_rate [of demo_orders None] hyps rows
  show ?thesis by auto
qed

subsection \<open>Fill rate buckets (C10)\<close>

lemma series_mean_Fin: "xs \<noteq> [] \<Longrightarrow> series_mean xs = Fin (sum_list xs / real (length xs))"
  by (simp add: series_mean_def)

lemma groupby_product_empty: "groupby_product df = [] \<longleftrightarrow> df = []"
proof -
  have "sort (remdups (map product_id df)) = [] \<longleftrightarrow> df = []"
    by (metis length_0_conv length_sort map_is_Nil_conv remdups_eq_nil_iff)
  then show ?thesis by (simp add: groupby_product_def)
qed

lemma indicator_sum_mono:
  fixes a b :: real
  assumes "b \<le> a"
  shows "sum_list (map (\<lambda>f. if f \<ge> a then 1 else 0) (rates :: real list))
    \<le> (sum_list (map (\<lambda>f. if f \<ge> b then 1 else 0) rates) :: real)"
  using assms by (intro sum_list_mono) auto

text \<open>
  Claim C10 says that for every inventory the excellent ratio is at most the good ratio
  when the excellent threshold is at least the good one. For an inventory without records
  the grouped frame is empty, both ratios are the mean of an empty column, \<open>NaN\<close>, and
  \<open>NaN \<le> NaN\<close> is false.
\<close>

theorem fill_rate_ratios_nan_on_empty_inventory:
  "\<not> np_le (excellent_rate_ratio (the (compute_fill_rate_stats demo_fill_thresholds [])))
        (good_rate_ratio (the (compute_fill_rate_stats demo_fill_thresholds [])))"
  by (simp add: compute_fill_rate_stats_def groupby_product_def bool_mean_def series_mean_def)

text \<open>
  Claim C10, amended. For every inventory with at least one record, and thresholds with
  \<open>good \<le> excellent\<close>, \<open>excellent_rate_ratio \<le> good_rate_ratio\<close>: a product counted as
  excellent is counted as good too.
\<close>

theorem fill_rate_buckets_cumulative:
  assumes "df_inventory \<noteq> []" and "fr_good thr \<le> fr_excellent thr"
    and "compute_fill_rate_stats thr df_inventory = Some st"
  shows "np_le (excellent_rate_ratio st) (good_rate_ratio st)"
proof -
  define rates where "rates = map (\<lambda>(k, f, n). f) (groupby_product df_inventory)"
  have ne: "rates \<noteq> []"
    using assms(1) by (simp add: rates_def groupby_product_empty)
  have e: "excellent_rate_ratio st =
      Fin (sum_list (map (\<lambda>f. if f \<ge> fr_excellent thr then 1 else 0) rates) / real (length rates))"
    and g: "good_rate_ratio st =
      Fin (sum_list (map (\<lambda>f. if f \<ge> fr_good thr then 1 else 0) rates) / real (length rates))"
    using assms(3) ne
    by (auto simp: compute_fill_rate_stats_def Let_def bool_mean_def series_mean_def rates_def
        comp_def)
  from indicator_sum_mono [OF assms(2), of rates] ne show ?thesis
    by (simp add: e g divide_right_mono)
qed

theorem fill_rate_buckets_cumulative_witness:
  "demo_inventory \<noteq> [] \<and> fr_good demo_fill_thresholds \<le> fr_excellent demo_fill_thresholds
   \<and> compute_fill_rate_stats demo_fill_thresholds demo_inventory
     = Some (the (compute_fill_rate_stats demo_fill_thresholds demo_inventory))
   \<and> excellent_rate_ratio (the (compute_fill_rate_stats demo_fill_thresholds demo_inventory))
     = Fin (1 / 2)
   \<and> good_rate_ratio (the (compute_fill_rate_stats demo_fill_thresholds demo_inventory))
     = Fin 1
   \<and> np_le (excellent_rate_ratio (the (compute_fill_rate_stats demo_fill_thresholds demo_inventory)))
        (good_rate_ratio (the (compute_fill_rate_stats demo_fill_thresholds demo_inventory)))"
proof -
  have hyps: "demo_inventory \<noteq> []"
    "fr_good demo_fill_thresholds \<le> fr_excellent demo_fill_thresholds"
    by (simp_all add: demo_inventory_def demo_fill_thresholds_def)
  have some: "compute_fill_rate_stats demo_fill_thresholds demo_inventory
      = Some (the (compute_fill_rate_stats demo_fill_thresholds demo_inventory))"
    by (simp add: compute_fill_rate_stats_def Let_def)
  have ratios:
    "excellent_rate_ratio (the (compute_fill_rate_stats demo_fill_thresholds demo_inventory))
      = Fin (1 / 2)"
    "good_rate_ratio (the (compute_fill_rate_stats demo_fill_thresholds demo_inventory)) = Fin 1"
    by (simp_all add: compute_fill_rate_stats_def groupby_product_def bool_mean_def
        series_mean_def demo_inventory_def demo_fill_thresholds_def zero_demand_record_def
        short_record_def enrich_derived Let_def)
  from fill_rate_buckets_cumulative [OF hyps some] hyps some ratios
  show ?thesis by simp
qed

end
